theory Spec2Isabelle
  imports Main
begin

section \<open>Tokens\<close>

text \<open>
  A token class is a constructor function with its chain of super classes; a token is an
  instance carrying the class that built it. The Token base class and EOF are declared
  outside the parser source, so only what the parser reads of them is kept: the class of
  a token (for \<open>instanceof\<close> and \<open>.constructor\<close>), its image and the
  \<open>isInsertedInRecovery\<close> flag the parser sets.
\<close>

datatype tokClass = TokClass (clsName: string) (clsSuper: "tokClass option")

record token =
  tokenType :: tokClass
  image :: string
  isInsertedInRecovery :: bool

text \<open>\<open>C instanceof T\<close> on classes: walk the prototype chain of \<open>C\<close>.\<close>

fun extends :: "tokClass \<Rightarrow> tokClass \<Rightarrow> bool" where
  "extends (TokClass n parent) T =
     (TokClass n parent = T \<or> (case parent of None \<Rightarrow> False | Some c \<Rightarrow> extends c T))"

text \<open>
  A value of type Token in the source may be \<open>undefined\<close> (an array read out of range);
  it is \<open>None\<close> here. \<open>undefined instanceof T\<close> is false.
\<close>

definition instanceOf :: "token option \<Rightarrow> tokClass \<Rightarrow> bool" where
  "instanceOf tok T = (case tok of None \<Rightarrow> False | Some t \<Rightarrow> extends (tokenType t) T)"

text \<open>
  Modelled from the spec: the Token base class and the EOF sentinel class (module
  scan/tokens_public is not part of the source at hand). \<open>new EOF()\<close> builds a
  token with an empty image; \<open>new T(-1, -1)\<close> builds a token of class \<open>T\<close>
  whose first constructor argument (the image) is -1.
\<close>

definition Token :: tokClass where
  "Token = TokClass ''Token'' None"

definition EOF :: tokClass where
  "EOF = TokClass ''EOF'' (Some Token)"

definition newEOF :: token where
  "newEOF = \<lparr>tokenType = EOF, image = '''', isInsertedInRecovery = False\<rparr>"

definition newToken :: "tokClass \<Rightarrow> string \<Rightarrow> token" where
  "newToken T img = \<lparr>tokenType = T, image = img, isInsertedInRecovery = False\<rparr>"

section \<open>Recognition exceptions\<close>

datatype exceptionName =
  MismatchedTokenException | NoViableAltException | EarlyExitException
  | NotAllInputParsedException

text \<open>
  An exception object. The same object is held by the \<open>errors\<close> array and is in flight
  as the thrown value, and the rule wrapper writes \<open>resyncedTokens\<close> into it after it
  was saved; \<open>exnId\<close> is the identity of the object, so that the write reaches the
  saved entry.
\<close>

record recognitionException =
  exnId :: nat
  name :: exceptionName
  message :: string
  token :: "token option"
  errContext :: "(string list \<times> nat list) option"
  resyncedTokens :: "token option list"

datatype thrown =
  Recognition recognitionException
  | InRuleRecoveryException string
  | Error string
  | TypeError string

fun isRecognitionException :: "thrown \<Rightarrow> bool" where
  "isRecognitionException (Recognition e) = True"
| "isRecognitionException _ = False"

datatype 'a outcome = Return 'a | Throw thrown

section \<open>Grammar AST and cloning\<close>

text \<open>
  Modelled from the spec: the GAST node classes (module grammar/gast_public is not part of
  the source at hand). The ten variants of the data model, each with the constructor
  arguments the clone visitor passes in \<open>new gast.X(...)\<close>. A node is an object: the
  first argument of every constructor here is the identity of the object, given out by
  \<open>new\<close> from a counter. The resolved reference of a NonTerminal is the identity of the
  Rule object it points to, \<open>None\<close> while it is unset.
\<close>

datatype production =
    Rule nat string "production list" string
  | Flat nat "production list"
  | NonTerminal nat string "nat option" nat
  | Terminal nat tokClass nat
  | Option nat "production list" nat
  | Repetition nat "production list" nat
  | RepetitionMandatory nat "production list" nat
  | RepetitionMandatoryWithSeparator nat "production list" tokClass nat
  | RepetitionWithSeparator nat "production list" tokClass nat
  | Alternation nat "production list" nat

text \<open>
  \<open>GastCloneVisitor\<close>: \<open>visit\<close> dispatches on the class of the node; the second argument
  is the counter of \<open>new\<close>, returned advanced. \<open>map(node.definition, ...)\<close> clones the
  children first, in order, then the node itself is built.
\<close>

fun visit :: "production \<Rightarrow> nat \<Rightarrow> production \<times> nat"
  and visitAll :: "production list \<Rightarrow> nat \<Rightarrow> production list \<times> nat" where
  "visit (NonTerminal i nonTerminalName referencedRule occurrenceInParent) h =
     (NonTerminal h nonTerminalName None occurrenceInParent, h + 1)"
| "visit (Flat i definition) h =
     (let (definition', h') = visitAll definition h in (Flat h' definition', h' + 1))"
| "visit (Option i definition occurrenceInParent) h =
     (let (definition', h') = visitAll definition h
      in (Option h' definition' occurrenceInParent, h' + 1))"
| "visit (Repetition i definition occurrenceInParent) h =
     (let (definition', h') = visitAll definition h
      in (Repetition h' definition' occurrenceInParent, h' + 1))"
| "visit (RepetitionMandatory i definition occurrenceInParent) h =
     (let (definition', h') = visitAll definition h
      in (RepetitionMandatory h' definition' occurrenceInParent, h' + 1))"
| "visit (RepetitionMandatoryWithSeparator i definition separator occurrenceInParent) h =
     (let (definition', h') = visitAll definition h
      in (RepetitionMandatoryWithSeparator h' definition' separator occurrenceInParent, h' + 1))"
| "visit (RepetitionWithSeparator i definition separator occurrenceInParent) h =
     (let (definition', h') = visitAll definition h
      in (RepetitionWithSeparator h' definition' separator occurrenceInParent, h' + 1))"
| "visit (Alternation i definition occurrenceInParent) h =
     (let (definition', h') = visitAll definition h
      in (Alternation h' definition' occurrenceInParent, h' + 1))"
| "visit (Terminal i terminalType occurrenceInParent) h =
     (Terminal h terminalType occurrenceInParent, h + 1)"
| "visit (Rule i nm definition orgText) h =
     (let (definition', h') = visitAll definition h in (Rule h' nm definition' orgText, h' + 1))"
| "visitAll [] h = ([], h)"
| "visitAll (currSubDef # rest) h =
     (let (currSubDef', h1) = visit currSubDef h;
          (rest', h2) = visitAll rest h1
      in (currSubDef' # rest', h2))"

definition cloneProduction :: "production \<Rightarrow> nat \<Rightarrow> production \<times> nat" where
  "cloneProduction node h = visit node h"

text \<open>The identities of the nodes of a tree, the node itself first.\<close>

fun nodeIds :: "production \<Rightarrow> nat list" where
  "nodeIds (Rule i nm definition orgText) = i # concat (map nodeIds definition)"
| "nodeIds (Flat i definition) = i # concat (map nodeIds definition)"
| "nodeIds (NonTerminal i nm referencedRule occ) = [i]"
| "nodeIds (Terminal i terminalType occ) = [i]"
| "nodeIds (Option i definition occ) = i # concat (map nodeIds definition)"
| "nodeIds (Repetition i definition occ) = i # concat (map nodeIds definition)"
| "nodeIds (RepetitionMandatory i definition occ) = i # concat (map nodeIds definition)"
| "nodeIds (RepetitionMandatoryWithSeparator i definition sep occ) =
     i # concat (map nodeIds definition)"
| "nodeIds (RepetitionWithSeparator i definition sep occ) = i # concat (map nodeIds definition)"
| "nodeIds (Alternation i definition occ) = i # concat (map nodeIds definition)"

text \<open>
  The shape of a tree: every node with its variant, its children in order, its name,
  occurrence index and separator, without the identities of the objects and without the
  resolved references.
\<close>

fun shape :: "production \<Rightarrow> production" where
  "shape (Rule i nm definition orgText) = Rule 0 nm (map shape definition) orgText"
| "shape (Flat i definition) = Flat 0 (map shape definition)"
| "shape (NonTerminal i nm referencedRule occ) = NonTerminal 0 nm None occ"
| "shape (Terminal i terminalType occ) = Terminal 0 terminalType occ"
| "shape (Option i definition occ) = Option 0 (map shape definition) occ"
| "shape (Repetition i definition occ) = Repetition 0 (map shape definition) occ"
| "shape (RepetitionMandatory i definition occ) =
     RepetitionMandatory 0 (map shape definition) occ"
| "shape (RepetitionMandatoryWithSeparator i definition sep occ) =
     RepetitionMandatoryWithSeparator 0 (map shape definition) sep occ"
| "shape (RepetitionWithSeparator i definition sep occ) =
     RepetitionWithSeparator 0 (map shape definition) sep occ"
| "shape (Alternation i definition occ) = Alternation 0 (map shape definition) occ"

text \<open>The resolved references of the NonTerminal nodes of a tree, in order.\<close>

fun referencedRules :: "production \<Rightarrow> nat option list" where
  "referencedRules (Rule i nm definition orgText) = concat (map referencedRules definition)"
| "referencedRules (Flat i definition) = concat (map referencedRules definition)"
| "referencedRules (NonTerminal i nm referencedRule occ) = [referencedRule]"
| "referencedRules (Terminal i terminalType occ) = []"
| "referencedRules (Option i definition occ) = concat (map referencedRules definition)"
| "referencedRules (Repetition i definition occ) = concat (map referencedRules definition)"
| "referencedRules (RepetitionMandatory i definition occ) =
     concat (map referencedRules definition)"
| "referencedRules (RepetitionMandatoryWithSeparator i definition sep occ) =
     concat (map referencedRules definition)"
| "referencedRules (RepetitionWithSeparator i definition sep occ) =
     concat (map referencedRules definition)"
| "referencedRules (Alternation i definition occ) = concat (map referencedRules definition)"

section \<open>Hash tables\<close>

text \<open>
  \<open>HashTable\<close> (module lang/lang_extensions, not part of the source at hand) wraps a
  JavaScript object: string keys, kept in the order in which they were first put.
\<close>

type_synonym 'v HashTable = "(string \<times> 'v) list"

definition htContainsKey :: "'v HashTable \<Rightarrow> string \<Rightarrow> bool" where
  "htContainsKey t k = (k \<in> set (map fst t))"

definition htGet :: "'v HashTable \<Rightarrow> string \<Rightarrow> 'v option" where
  "htGet t k = map_of t k"

definition htPut :: "string \<Rightarrow> 'v \<Rightarrow> 'v HashTable \<Rightarrow> 'v HashTable" where
  "htPut k v t =
     (if htContainsKey t k then map (\<lambda>(k', v'). if k' = k then (k', v) else (k', v')) t
      else t @ [(k, v)])"


definition htKeys :: "'v HashTable \<Rightarrow> string list" where
  "htKeys t = map fst t"


type_synonym IgnoredParserIssues = "(string \<times> (string \<times> bool) list) list"

section \<open>Parser instance state\<close>

record parser =
  errors :: "recognitionException list"
  recoveryEnabled :: bool
  input :: "token list"
  inputIdx :: int
  isBackTrackingStack :: "nat list"
  className :: string
  RULE_STACK :: "string list"
  RULE_OCCURRENCE_STACK :: "nat list"
  savedTokenIdx :: "int option"
  nextExnId :: nat
  maxLookahead :: nat
  ignoredIssues :: IgnoredParserIssues
  productions :: "production HashTable"

subsection \<open>Access to the token vector\<close>

text \<open>A JavaScript array read: \<open>undefined\<close> outside the array.\<close>

definition arrayGet :: "'a list \<Rightarrow> int \<Rightarrow> 'a option" where
  "arrayGet xs i = (if 0 \<le> i \<and> i < int (length xs) then Some (xs ! nat i) else None)"

definition LA :: "parser \<Rightarrow> int \<Rightarrow> token option" where
  "LA p howMuch =
     (if int (length (input p)) \<le> inputIdx p + howMuch then Some newEOF
      else arrayGet (input p) (inputIdx p + howMuch))"

definition consumeToken :: "parser \<Rightarrow> parser" where
  "consumeToken p = p\<lparr>inputIdx := inputIdx p + 1\<rparr>"


definition resetLexerState :: "parser \<Rightarrow> parser" where
  "resetLexerState p = p\<lparr>inputIdx := - 1\<rparr>"

definition isAtEndOfInput :: "parser \<Rightarrow> bool" where
  "isAtEndOfInput p = instanceOf (LA p 1) EOF"

definition isBackTracking :: "parser \<Rightarrow> bool" where
  "isBackTracking p = (\<not> (isBackTrackingStack p = []))"

subsection \<open>reset and the input setter\<close>

definition reset :: "parser \<Rightarrow> parser" where
  "reset p =
     (resetLexerState p)
       \<lparr>isBackTrackingStack := [], errors := [], input := [],
        RULE_STACK := [], RULE_OCCURRENCE_STACK := []\<rparr>"

definition set_input :: "token list \<Rightarrow> parser \<Rightarrow> parser" where
  "set_input newInput p = (reset p)\<lparr>input := newInput\<rparr>"

section \<open>Collaborators outside the parser source\<close>

text \<open>
  The parser reads these from modules that are not part of the source at hand; they are
  parameters of everything below.
  \<^item> \<open>hasTokenLabel\<close>, \<open>tokenLabel\<close>, \<open>tokenName\<close>: scan/tokens_public.
  \<^item> \<open>nextAfterTokenWalker path\<close>: the token types
    \<open>new NextAfterTokenWalker(topProduction, path).startWalking()\<close> computes from the
    cached productions of the class (grammar/interpreter).
  \<^item> \<open>resyncFollows key\<close>: \<open>cache.getResyncFollowsForClass(className).get(key)\<close>,
    \<open>None\<close> for \<open>undefined\<close>.
  \<^item> \<open>IN\<close>: the separator constant of module constants.
  \<^item> \<open>lookaheadFuncFor key\<close> and \<open>orLookaheadFuncFor key\<close>: the lookahead function
    \<open>classLAFuncs\<close> holds under \<open>key\<close> once it has been built (grammar/lookahead); it
    reads the parser and answers whether to enter the production, or which alternative
    to take (-1 for none).
  \<^item> \<open>firstAfterRepFor key\<close>: what \<open>firstAfterRepMap\<close> holds under \<open>key\<close> once the
    walker after the repetition has run (grammar/interpreter).
  \<^item> \<open>lookaheadPathsForOr\<close>, \<open>lookaheadPathsForOptionalProd\<close>: the token paths
    \<open>getLookaheadPathsForOr(occurrence, ruleGrammar, k)\<close> and
    \<open>getLookaheadPathsForOptionalProd(occurrence, ruleGrammar, prodType, k)\<close> compute for
    the grammar of the named rule; they only feed error messages.
\<close>

record ITokenGrammarPath =
  ruleStack :: "string list"
  occurrenceStack :: "nat list"
  lastTok :: tokClass
  lastTokOccurrence :: nat

datatype PROD_TYPE =
  OPTION | REPETITION | REPETITION_MANDATORY | REPETITION_MANDATORY_WITH_SEPARATOR
  | REPETITION_WITH_SEPARATOR | ALTERNATION

text \<open>What the walker after a repetition returns: \<open>token\<close>, \<open>occurrence\<close>, \<open>isEndOfRule\<close>.\<close>

datatype IFirstAfterRepetition = FirstAfterRepetition "tokClass option" "nat option" bool

record env =
  hasTokenLabel :: "tokClass \<Rightarrow> bool"
  tokenLabel :: "tokClass \<Rightarrow> string"
  tokenName :: "tokClass \<Rightarrow> string"
  nextAfterTokenWalker :: "ITokenGrammarPath \<Rightarrow> tokClass list"
  resyncFollows :: "string \<Rightarrow> tokClass list option"
  IN :: string
  lookaheadFuncFor :: "string \<Rightarrow> parser \<Rightarrow> bool"
  orLookaheadFuncFor :: "string \<Rightarrow> parser \<Rightarrow> int"
  firstAfterRepFor :: "string \<Rightarrow> IFirstAfterRepetition"
  lookaheadPathsForOr :: "nat \<Rightarrow> string option \<Rightarrow> nat \<Rightarrow> tokClass list list list"
  lookaheadPathsForOptionalProd ::
    "nat \<Rightarrow> string option \<Rightarrow> PROD_TYPE \<Rightarrow> nat \<Rightarrow> tokClass list list list"

section \<open>Saving errors\<close>

text \<open>\<open>new exceptions.X(message, token)\<close>: a fresh object, no context yet.\<close>

definition newException ::
  "exceptionName \<Rightarrow> string \<Rightarrow> token option \<Rightarrow> parser \<Rightarrow> recognitionException \<times> parser" where
  "newException nm msg tok p =
     (\<lparr>exnId = nextExnId p, name = nm, message = msg, token = tok, errContext = None,
       resyncedTokens = []\<rparr>,
      p\<lparr>nextExnId := nextExnId p + 1\<rparr>)"

text \<open>
  Every call of \<open>SAVE_ERROR\<close> in the parser passes an exception it has just built, so no
  earlier entry of \<open>errors\<close> is the object whose context is written here.
\<close>

definition SAVE_ERROR :: "thrown \<Rightarrow> parser \<Rightarrow> thrown outcome \<times> parser" where
  "SAVE_ERROR error p =
     (case error of
        Recognition e \<Rightarrow>
          (let e' = e\<lparr>errContext := Some (RULE_STACK p, RULE_OCCURRENCE_STACK p)\<rparr>
           in (Return (Recognition e'), p\<lparr>errors := errors p @ [e']\<rparr>))
      | _ \<Rightarrow>
          (Throw (Error ''Trying to save an Error which is not a RecognitionException''), p))"

text \<open>\<open>throw this.SAVE_ERROR(e)\<close>: whatever \<open>SAVE_ERROR\<close> returns or throws is thrown.\<close>

definition throwSaved :: "thrown outcome \<times> parser \<Rightarrow> 'a outcome \<times> parser" where
  "throwSaved r = (case r of (Return x, p) \<Rightarrow> (Throw x, p) | (Throw x, p) \<Rightarrow> (Throw x, p))"


text \<open>The parser after that exception has been built and saved.\<close>

definition withSaved :: "recognitionException \<Rightarrow> parser \<Rightarrow> parser" where
  "withSaved e p = p\<lparr>nextExnId := nextExnId p + 1, errors := errors p @ [e]\<rparr>"

section \<open>Consuming a token\<close>

definition SKIP_TOKEN :: "parser \<Rightarrow> token option \<times> parser" where
  "SKIP_TOKEN p =
     (if inputIdx p \<le> int (length (input p)) - 2
      then (let p1 = consumeToken p in (LA p1 1, p1))
      else (Some newEOF, p))"

definition getTokenToInsert :: "tokClass \<Rightarrow> token" where
  "getTokenToInsert tokClass = newToken tokClass ''-1''"

definition canTokenTypeBeInsertedInRecovery :: "tokClass \<Rightarrow> bool" where
  "canTokenTypeBeInsertedInRecovery tokClass = True"

definition getMisMatchTokenErrorMessage :: "env \<Rightarrow> tokClass \<Rightarrow> token \<Rightarrow> string" where
  "getMisMatchTokenErrorMessage E expectedTokType actualToken =
     (let hasLabel = hasTokenLabel E expectedTokType;
          expectedMsg =
            (if hasLabel then ''--> '' @ tokenLabel E expectedTokType @ '' <--''
             else ''token of type --> '' @ tokenName E expectedTokType @ '' <--'');
          msg = ''Expecting '' @ expectedMsg @ '' but found --> '' @ [CHR 0x27]
                  @ image actualToken @ [CHR 0x27] @ '' <--''
      in msg)"

definition getCurrentGrammarPath :: "tokClass \<Rightarrow> nat \<Rightarrow> parser \<Rightarrow> ITokenGrammarPath" where
  "getCurrentGrammarPath tokClass tokIdxInRule p =
     \<lparr>ruleStack = RULE_STACK p, occurrenceStack = RULE_OCCURRENCE_STACK p,
      lastTok = tokClass, lastTokOccurrence = tokIdxInRule\<rparr>"

definition getNextPossibleTokenTypes :: "env \<Rightarrow> ITokenGrammarPath \<Rightarrow> tokClass list" where
  "getNextPossibleTokenTypes E grammarPath = nextAfterTokenWalker E grammarPath"

definition getFollowsForInRuleRecovery :: "env \<Rightarrow> tokClass \<Rightarrow> nat \<Rightarrow> parser \<Rightarrow> tokClass list" where
  "getFollowsForInRuleRecovery E tokClass tokIdxInRule p =
     getNextPossibleTokenTypes E (getCurrentGrammarPath tokClass tokIdxInRule p)"

text \<open>
  \<open>getMisMatchTokenErrorMessage\<close> reads \<open>actualToken.image\<close>, a TypeError when the
  token is \<open>undefined\<close>.
\<close>

definition consumeInternalOptimized :: "env \<Rightarrow> tokClass \<Rightarrow> parser \<Rightarrow> token option outcome \<times> parser" where
  "consumeInternalOptimized E expectedTokClass p =
     (let nextToken = LA p 1
      in if instanceOf nextToken expectedTokClass then (Return nextToken, consumeToken p)
         else (case nextToken of
                 None \<Rightarrow> (Throw (TypeError ''Cannot read property image of undefined''), p)
               | Some actualToken \<Rightarrow>
                   (let msg = getMisMatchTokenErrorMessage E expectedTokClass actualToken;
                        (e, p1) = newException MismatchedTokenException msg nextToken p
                    in throwSaved (SAVE_ERROR (Recognition e) p1))))"

definition canRecoverWithSingleTokenInsertion :: "tokClass \<Rightarrow> tokClass list \<Rightarrow> parser \<Rightarrow> bool" where
  "canRecoverWithSingleTokenInsertion expectedTokType follows p =
     (if \<not> canTokenTypeBeInsertedInRecovery expectedTokType then False
      else if follows = [] then False
      else (let mismatchedTok = LA p 1
            in find (\<lambda>possibleFollowsTokType. instanceOf mismatchedTok possibleFollowsTokType)
                 follows \<noteq> None))"

definition canRecoverWithSingleTokenDeletion :: "tokClass \<Rightarrow> parser \<Rightarrow> bool" where
  "canRecoverWithSingleTokenDeletion expectedTokType p = instanceOf (LA p 2) expectedTokType"


definition tryInRuleRecovery :: "tokClass \<Rightarrow> tokClass list \<Rightarrow> parser \<Rightarrow> token option outcome \<times> parser" where
  "tryInRuleRecovery expectedTokType follows p =
     (if canRecoverWithSingleTokenInsertion expectedTokType follows p
      then (let tokToInsert = getTokenToInsert expectedTokType
            in (Return (Some (tokToInsert\<lparr>isInsertedInRecovery := True\<rparr>)), p))
      else if canRecoverWithSingleTokenDeletion expectedTokType p
      then (let (nextTok, p1) = SKIP_TOKEN p in (Return nextTok, consumeToken p1))
      else (Throw (InRuleRecoveryException ''sad sad panda''), p))"

fun isMismatchedTokenException :: "thrown \<Rightarrow> bool" where
  "isMismatchedTokenException (Recognition e) = (name e = MismatchedTokenException)"
| "isMismatchedTokenException _ = False"

fun isInRuleRecoveryException :: "thrown \<Rightarrow> bool" where
  "isInRuleRecoveryException (InRuleRecoveryException m) = True"
| "isInRuleRecoveryException _ = False"

definition consumeInternal :: "env \<Rightarrow> tokClass \<Rightarrow> nat \<Rightarrow> parser \<Rightarrow> token option outcome \<times> parser" where
  "consumeInternal E tokClass idx p =
     (case consumeInternalOptimized E tokClass p of
        (Return tok, p1) \<Rightarrow> (Return tok, p1)
      | (Throw eFromConsumption, p1) \<Rightarrow>
          (if recoveryEnabled p1 \<and> isMismatchedTokenException eFromConsumption
              \<and> \<not> isBackTracking p1
           then (let follows = getFollowsForInRuleRecovery E tokClass idx p1
                 in case tryInRuleRecovery tokClass follows p1 of
                      (Return tok, p2) \<Rightarrow> (Return tok, p2)
                    | (Throw eFromInRuleRecovery, p2) \<Rightarrow>
                        (if isInRuleRecoveryException eFromInRuleRecovery
                         then (Throw eFromConsumption, p2)
                         else (Throw eFromInRuleRecovery, p2)))
           else (Throw eFromConsumption, p1)))"

section \<open>Re-synchronisation\<close>

text \<open>Number to string conversion of JavaScript's \<open>+\<close> on a string and a number.\<close>

fun numberToString :: "nat \<Rightarrow> string" where
  "numberToString n =
     (if n < 10 then [char_of (48 + n)]
      else numberToString (n div 10) @ [char_of (48 + n mod 10)])"

text \<open>An \<open>undefined\<close> operand of \<open>+\<close> on strings reads "undefined".\<close>

definition strOrUndefined :: "string option \<Rightarrow> string" where
  "strOrUndefined x = (case x of None \<Rightarrow> ''undefined'' | Some str \<Rightarrow> str)"

definition numOrUndefined :: "nat option \<Rightarrow> string" where
  "numOrUndefined x = (case x of None \<Rightarrow> ''undefined'' | Some n \<Rightarrow> numberToString n)"

text \<open>A follow key holds \<open>ruleName\<close>, \<open>idxInCallingRule\<close> and \<open>inRule\<close>, in this order.\<close>

datatype IFollowKey =
  EOF_FOLLOW_KEY
  | FollowKey "string option" "nat option" "string option"

definition getCurrFollowKey :: "parser \<Rightarrow> IFollowKey" where
  "getCurrFollowKey p =
     (if length (RULE_STACK p) = 1 then EOF_FOLLOW_KEY
      else (let currRuleIdx = int (length (RULE_STACK p)) - 1;
                currRuleOccIdx = currRuleIdx;
                prevRuleIdx = currRuleIdx - 1
            in FollowKey (arrayGet (RULE_STACK p) currRuleIdx)
                 (arrayGet (RULE_OCCURRENCE_STACK p) currRuleOccIdx)
                 (arrayGet (RULE_STACK p) prevRuleIdx)))"

definition buildFullFollowKeyStack :: "parser \<Rightarrow> IFollowKey list" where
  "buildFullFollowKeyStack p =
     map (\<lambda>(rn, idx).
            if idx = 0 then EOF_FOLLOW_KEY
            else FollowKey (Some rn) (arrayGet (RULE_OCCURRENCE_STACK p) (int idx))
                   (arrayGet (RULE_STACK p) (int idx - 1)))
       (zip (RULE_STACK p) [0 ..< length (RULE_STACK p)])"

definition getFollowSetFromFollowKey :: "env \<Rightarrow> IFollowKey \<Rightarrow> tokClass list option" where
  "getFollowSetFromFollowKey E followKey =
     (case followKey of
        EOF_FOLLOW_KEY \<Rightarrow> Some [EOF]
      | FollowKey rn idx ir \<Rightarrow>
          resyncFollows E (strOrUndefined rn @ numOrUndefined idx @ IN E @ strOrUndefined ir))"

text \<open>
  \<open>flatten\<close> splices the arrays and keeps anything that is not an array as an element,
  so a follow set that the cache does not hold leaves one \<open>undefined\<close> element.
\<close>

definition flatten :: "'a list option list \<Rightarrow> 'a option list" where
  "flatten arr = concat (map (\<lambda>item. case item of None \<Rightarrow> [None] | Some xs \<Rightarrow> map Some xs) arr)"

definition flattenFollowSet :: "env \<Rightarrow> parser \<Rightarrow> tokClass option list" where
  "flattenFollowSet E p =
     flatten (map (\<lambda>currKey. getFollowSetFromFollowKey E currKey) (buildFullFollowKeyStack p))"

text \<open>
  \<open>contains\<close> walks its array argument up to its length, so an \<open>undefined\<close> follow set
  is a TypeError.
\<close>

definition isInCurrentRuleReSyncSet :: "env \<Rightarrow> tokClass \<Rightarrow> parser \<Rightarrow> bool outcome" where
  "isInCurrentRuleReSyncSet E tok p =
     (let followKey = getCurrFollowKey p;
          currentRuleReSyncSet = getFollowSetFromFollowKey E followKey
      in case currentRuleReSyncSet of
           None \<Rightarrow> Throw (TypeError ''Cannot read property length of undefined'')
         | Some fs \<Rightarrow> Return (tok \<in> set fs))"

text \<open>
  The \<open>while (true)\<close> loop of \<open>findReSyncTokenType\<close>; \<open>None\<close> is a loop that never
  ends. Reading \<open>.constructor\<close> of \<open>undefined\<close> is a TypeError.
\<close>

partial_function (option) findReSyncTokenTypeLoop ::
  "tokClass option list \<Rightarrow> parser \<Rightarrow> token option \<Rightarrow> int \<Rightarrow> tokClass outcome option" where
  "findReSyncTokenTypeLoop allPossibleReSyncTokTypes p nextToken k =
     (case nextToken of
        None \<Rightarrow> Some (Throw (TypeError ''Cannot read property constructor of undefined''))
      | Some t \<Rightarrow>
          (let nextTokenType = tokenType t
           in if Some nextTokenType \<in> set allPossibleReSyncTokTypes
              then Some (Return nextTokenType)
              else findReSyncTokenTypeLoop allPossibleReSyncTokTypes p (LA p k) (k + 1)))"

definition findReSyncTokenType :: "env \<Rightarrow> parser \<Rightarrow> tokClass outcome option" where
  "findReSyncTokenType E p =
     (let allPossibleReSyncTokTypes = flattenFollowSet E p;
          nextToken = LA p 1
      in findReSyncTokenTypeLoop allPossibleReSyncTokTypes p nextToken 2)"

definition addToResyncTokens :: "token option \<Rightarrow> token option list \<Rightarrow> token option list" where
  "addToResyncTokens tok resyncTokens =
     (if \<not> instanceOf tok EOF then resyncTokens @ [tok] else resyncTokens)"

definition dropRight :: "'a list \<Rightarrow> 'a list" where
  "dropRight arr = butlast arr"

partial_function (option) reSyncToLoop ::
  "tokClass \<Rightarrow> token option \<Rightarrow> token option list \<Rightarrow> parser
   \<Rightarrow> (token option list \<times> parser) option" where
  "reSyncToLoop tokClass nextTok resyncedToks p =
     (if instanceOf nextTok tokClass then Some (resyncedToks, p)
      else (let (nextTok', p1) = SKIP_TOKEN p
            in reSyncToLoop tokClass nextTok' (addToResyncTokens nextTok' resyncedToks) p1))"

definition reSyncTo :: "tokClass \<Rightarrow> parser \<Rightarrow> (token option list \<times> parser) option" where
  "reSyncTo tokClass p =
     (case reSyncToLoop tokClass (LA p 1) [] p of
        None \<Rightarrow> None
      | Some (resyncedToks, p1) \<Rightarrow> Some (dropRight resyncedToks, p1))"

section \<open>The rule wrapper\<close>

definition ruleInvocationStateUpdate :: "string \<Rightarrow> nat \<Rightarrow> parser \<Rightarrow> parser" where
  "ruleInvocationStateUpdate rName idx p =
     p\<lparr>RULE_OCCURRENCE_STACK := RULE_OCCURRENCE_STACK p @ [idx],
       RULE_STACK := RULE_STACK p @ [rName]\<rparr>"

text \<open>\<open>pop\<close> on an empty array leaves it empty, as \<open>butlast\<close> does.\<close>

definition ruleFinallyStateUpdate :: "parser \<Rightarrow> unit outcome \<times> parser" where
  "ruleFinallyStateUpdate p =
     (let p1 = p\<lparr>RULE_STACK := butlast (RULE_STACK p),
                  RULE_OCCURRENCE_STACK := butlast (RULE_OCCURRENCE_STACK p)\<rparr>
      in if length (RULE_STACK p1) = 0 \<and> \<not> isAtEndOfInput p1
         then (case LA p1 1 of
                 None \<Rightarrow> (Throw (TypeError ''Cannot read property image of undefined''), p1)
               | Some firstRedundantTok \<Rightarrow>
                   (let (e, p2) =
                          newException NotAllInputParsedException
                            (''Redundant input, expecting EOF but found: ''
                               @ image firstRedundantTok)
                            (Some firstRedundantTok) p1
                    in case SAVE_ERROR (Recognition e) p2 of
                         (Return saved, p3) \<Rightarrow> (Return (), p3)
                       | (Throw x, p3) \<Rightarrow> (Throw x, p3)))
         else (Return (), p1))"

text \<open>
  The rule configuration; an absent field takes the value of \<open>DEFAULT_RULE_CONFIG\<close>.
  A rule returns a JavaScript value, \<open>None\<close> for \<open>undefined\<close>.
\<close>

record 'a IRuleConfig =
  recoveryValueFunc :: "(unit \<Rightarrow> 'a option) option"
  resyncEnabled :: "bool option"

definition DEFAULT_RULE_CONFIG_recoveryValueFunc :: "unit \<Rightarrow> 'a option" where
  "DEFAULT_RULE_CONFIG_recoveryValueFunc = (\<lambda>u. None)"

definition DEFAULT_RULE_CONFIG_resyncEnabled :: bool where
  "DEFAULT_RULE_CONFIG_resyncEnabled = True"


text \<open>\<open>has(config, "resyncEnabled") ? config.resyncEnabled : DEFAULT_RULE_CONFIG.resyncEnabled\<close>\<close>

definition resyncEnabledOf :: "'a IRuleConfig \<Rightarrow> bool" where
  "resyncEnabledOf config =
     (case resyncEnabled config of Some b \<Rightarrow> b | None \<Rightarrow> DEFAULT_RULE_CONFIG_resyncEnabled)"

definition recoveryValueFuncOf :: "'a IRuleConfig \<Rightarrow> unit \<Rightarrow> 'a option" where
  "recoveryValueFuncOf config =
     (case recoveryValueFunc config of Some f \<Rightarrow> f
      | None \<Rightarrow> DEFAULT_RULE_CONFIG_recoveryValueFunc)"

text \<open>
  \<open>e.resyncedTokens = toks\<close> writes into the exception object, which the \<open>errors\<close>
  array holds as well.
\<close>

definition setResyncedTokens :: "recognitionException \<Rightarrow> token option list \<Rightarrow> parser \<Rightarrow> parser" where
  "setResyncedTokens e toks p =
     p\<lparr>errors := map (\<lambda>x. if exnId x = exnId e then x\<lparr>resyncedTokens := toks\<rparr> else x)
                    (errors p)\<rparr>"

text \<open>
  The \<open>finally\<close> block of the wrapper: it runs after the \<open>try\<close> and \<open>catch\<close> blocks have
  produced their outcome, and an exception of its own replaces that outcome.
\<close>

definition ruleFinally :: "'a outcome \<Rightarrow> parser \<Rightarrow> ('a outcome \<times> parser) option" where
  "ruleFinally r p =
     (case ruleFinallyStateUpdate p of
        (Return u, p1) \<Rightarrow> Some (r, p1)
      | (Throw x, p1) \<Rightarrow> Some (Throw x, p1))"

text \<open>
  The function \<open>defineRule\<close> returns. \<open>impl\<close> is the rule's implementation applied to its
  arguments: it runs on the parser and returns, throws, or does not come back (\<open>None\<close>).
  \<open>idxInCallingRule\<close> is \<open>None\<close> when the caller leaves the argument out.
\<close>

definition defineRule ::
  "env \<Rightarrow> string \<Rightarrow> (parser \<Rightarrow> ('a option outcome \<times> parser) option) \<Rightarrow> 'a IRuleConfig
   \<Rightarrow> nat option \<Rightarrow> parser \<Rightarrow> ('a option outcome \<times> parser) option" where
  "defineRule E rName impl config idxInCallingRule p =
     (let resyncEnabled' = resyncEnabledOf config;
          recoveryValueFunc' = recoveryValueFuncOf config;
          idx = (case idxInCallingRule of None \<Rightarrow> 1 | Some i \<Rightarrow> i);
          p1 = ruleInvocationStateUpdate rName idx p
      in case impl p1 of
           None \<Rightarrow> None
         | Some (Return v, p2) \<Rightarrow> ruleFinally (Return v) p2
         | Some (Throw e, p2) \<Rightarrow>
             (let isFirstInvokedRule = (length (RULE_STACK p2) = 1);
                  reSyncEnabled =
                    (isFirstInvokedRule \<or>
                     (resyncEnabled' \<and> \<not> isBackTracking p2 \<and> recoveryEnabled p2))
              in if reSyncEnabled \<and> isRecognitionException e
                 then (case findReSyncTokenType E p2 of
                         None \<Rightarrow> None
                       | Some (Throw x) \<Rightarrow> ruleFinally (Throw x) p2
                       | Some (Return reSyncTokType) \<Rightarrow>
                           (case isInCurrentRuleReSyncSet E reSyncTokType p2 of
                              Throw x \<Rightarrow> ruleFinally (Throw x) p2
                            | Return inSet \<Rightarrow>
                                (if inSet
                                 then (case reSyncTo reSyncTokType p2 of
                                         None \<Rightarrow> None
                                       | Some (toks, p3) \<Rightarrow>
                                           (case e of
                                              Recognition ex \<Rightarrow>
                                                ruleFinally (Return (recoveryValueFunc' ()))
                                                  (setResyncedTokens ex toks p3)
                                            | _ \<Rightarrow> ruleFinally (Return (recoveryValueFunc' ())) p3))
                                 else ruleFinally (Throw e) p2)))
                 else ruleFinally (Throw e) p2))"

section \<open>Backtracking\<close>

record IParserState =
  savedErrors :: "recognitionException list"
  lexerState :: int
  savedRuleStack :: "string list"

definition saveRecogState :: "parser \<Rightarrow> IParserState" where
  "saveRecogState p =
     \<lparr>savedErrors = errors p, lexerState = inputIdx p, savedRuleStack = RULE_STACK p\<rparr>"

definition reloadRecogState :: "IParserState \<Rightarrow> parser \<Rightarrow> parser" where
  "reloadRecogState newState p =
     p\<lparr>errors := savedErrors newState, inputIdx := lexerState newState,
       RULE_STACK := savedRuleStack newState\<rparr>"

text \<open>
  The function \<open>BACKTRACK\<close> returns. \<open>grammarRule\<close> is the rule as \<open>grammarRule.call(this)\<close>
  runs it; \<open>isValid\<close> is the caller's predicate on its result.
\<close>

definition BACKTRACK ::
  "(parser \<Rightarrow> ('a outcome \<times> parser) option) \<Rightarrow> ('a \<Rightarrow> bool) \<Rightarrow> parser
   \<Rightarrow> (bool outcome \<times> parser) option" where
  "BACKTRACK grammarRule isValid p =
     (let p1 = p\<lparr>isBackTrackingStack := isBackTrackingStack p @ [1]\<rparr>;
          orgState = saveRecogState p1;
          restore = (\<lambda>q. (reloadRecogState orgState q)
                            \<lparr>isBackTrackingStack := butlast (isBackTrackingStack q)\<rparr>)
      in case grammarRule p1 of
           None \<Rightarrow> None
         | Some (Return ruleResult, p2) \<Rightarrow> Some (Return (isValid ruleResult), restore p2)
         | Some (Throw e, p2) \<Rightarrow>
             (if isRecognitionException e then Some (Return False, restore p2)
              else Some (Throw e, restore p2)))"

text \<open>A rule production for concrete runs; its NonTerminal is resolved to object 7.\<close>

definition exampleProduction :: production where
  "exampleProduction =
     Rule 0 ''top'' [Terminal 1 (TokClass ''A'' (Some (TokClass ''Token'' None))) 1,
                     Option 2 [NonTerminal 3 ''sub'' (Some 7) 1] 1] ''text''"

section \<open>Self analysis\<close>

datatype ParserDefinitionErrorType =
  INVALID_RULE_NAME | DUPLICATE_RULE_NAME | INVALID_RULE_OVERRIDE | DUPLICATE_PRODUCTIONS
  | UNRESOLVED_SUBRULE_REF | LEFT_RECURSION | NONE_LAST_EMPTY_ALT | AMBIGUOUS_ALTS












section \<open>The parsing DSL\<close>

text \<open>
  A method of the parser that runs user code: it returns a value, throws, or does not come
  back (\<open>None\<close>). Loops that run user code take a bound on the number of their
  iterations as first argument and are \<open>None\<close> when it is used up.
\<close>

type_synonym 'a action = "parser \<Rightarrow> ('a outcome \<times> parser) option"


definition returning :: "'a \<Rightarrow> 'a action" where
  "returning v p = Some (Return v, p)"




subsection \<open>Lookahead functions\<close>










subsection \<open>Raising\<close>




subsection \<open>OPTION and OR\<close>




subsection \<open>In-repetition recovery\<close>







subsection \<open>Repetitions\<close>









subsection \<open>Rules that only call the DSL\<close>



definition notAFunction :: "'a action" where
  "notAFunction p = Some (Throw (TypeError ''is not a function''), p)"




section \<open>What a DSL call may change\<close>

text \<open>
  The two index fields never go below the initial value -1: every write to \<open>inputIdx\<close> is
  an increment, a reset to -1 or a restore of a saved value.
\<close>

definition wellFormed :: "parser \<Rightarrow> bool" where
  "wellFormed p =
     (- 1 \<le> inputIdx p \<and> (case savedTokenIdx p of None \<Rightarrow> True | Some i \<Rightarrow> - 1 \<le> i))"

text \<open>
  The relation between the parser before a DSL call, the call's outcome and the parser
  after it: the two rule stacks, the backtracking stack, the input and the recovery flag are
  as before, a recognition exception that is thrown has been saved in \<open>errors\<close>, and with
  recovery disabled nothing else has been added to \<open>errors\<close>.
\<close>

definition post :: "parser \<Rightarrow> 'a outcome \<Rightarrow> parser \<Rightarrow> bool" where
  "post p r q =
     (RULE_STACK q = RULE_STACK p \<and>
      RULE_OCCURRENCE_STACK q = RULE_OCCURRENCE_STACK p \<and>
      isBackTrackingStack q = isBackTrackingStack p \<and>
      input q = input p \<and>
      recoveryEnabled q = recoveryEnabled p \<and>
      wellFormed q \<and>
      (case r of Throw (Recognition e) \<Rightarrow> e \<in> set (errors q) | _ \<Rightarrow> True) \<and>
      (recoveryEnabled p \<or>
       errors q = errors p @ (case r of Throw (Recognition e) \<Rightarrow> [e] | _ \<Rightarrow> [])))"

text \<open>
  An action keeps to that relation whenever it is started inside a rule invocation and comes
  back; \<open>recovering\<close> restricts the starting parsers to those with recovery enabled.
\<close>

definition conformsIf :: "bool \<Rightarrow> 'a action \<Rightarrow> bool" where
  "conformsIf recovering act =
     (\<forall>p r q. wellFormed p \<and> RULE_STACK p \<noteq> [] \<and> (recovering \<longrightarrow> recoveryEnabled p) \<and>
              act p = Some (r, q) \<longrightarrow> post p r q)"

abbreviation conforms :: "'a action \<Rightarrow> bool" where
  "conforms \<equiv> conformsIf False"


section \<open>Construction\<close>

text \<open>
  The runtime fields as the field initialisers and the constructor leave them; the
  configuration is taken after its defaults are filled in.
\<close>

definition newParser :: "string \<Rightarrow> token list \<Rightarrow> bool \<Rightarrow> parser" where
  "newParser clazz tokens recovery =
     \<lparr>errors = [], recoveryEnabled = recovery, input = tokens, inputIdx = - 1,
      isBackTrackingStack = [], className = clazz, RULE_STACK = [],
      RULE_OCCURRENCE_STACK = [], savedTokenIdx = None, nextExnId = 0,
      maxLookahead = 5, ignoredIssues = [], productions = []\<rparr>"

text \<open>Two token classes and a collaborator record for concrete runs.\<close>

definition TokA :: tokClass where
  "TokA = TokClass ''A'' (Some Token)"

definition TokB :: tokClass where
  "TokB = TokClass ''B'' (Some Token)"

definition tokA :: token where
  "tokA = newToken TokA ''a''"

definition tokB :: token where
  "tokB = newToken TokB ''b''"

definition exampleEnv :: env where
  "exampleEnv =
     \<lparr>hasTokenLabel = (\<lambda>T. False), tokenLabel = clsName, tokenName = clsName,
      nextAfterTokenWalker = (\<lambda>path. [TokB]), resyncFollows = (\<lambda>key. None),
      IN = ''_~IN~_'',
      lookaheadFuncFor = (\<lambda>key p. instanceOf (LA p 1) TokA),
      orLookaheadFuncFor = (\<lambda>key p. if instanceOf (LA p 1) TokA then 0 else - 1),
      firstAfterRepFor = (\<lambda>key. FirstAfterRepetition None None True),
      lookaheadPathsForOr = (\<lambda>occurrence rule k. [[[TokA]]]),
      lookaheadPathsForOptionalProd = (\<lambda>occurrence rule prodType k. [[[TokA]]])\<rparr>"

text \<open>A rule implementation that is the single call \<open>this.CONSUME1(A)\<close>.\<close>

definition consumeA :: "parser \<Rightarrow> (token option outcome \<times> parser) option" where
  "consumeA p = Some (consumeInternal exampleEnv TokA 1 p)"






section \<open>Properties of the token vector access\<close>

lemma LA_past_end:
  "int (length (input p)) \<le> inputIdx p + howMuch \<Longrightarrow> LA p howMuch = Some newEOF"
  by (simp add: LA_def)

lemma LA_in_range:
  "0 \<le> inputIdx p + howMuch \<Longrightarrow> inputIdx p + howMuch < int (length (input p)) \<Longrightarrow>
   LA p howMuch = Some (input p ! nat (inputIdx p + howMuch))"
  by (simp add: LA_def arrayGet_def)

text \<open>
  C5. The input index of a parser is never below its initial value -1. For every token
  sequence and every lookahead distance \<open>howMuch \<ge> 1\<close>, \<open>LA\<close> then yields a token and
  never \<open>undefined\<close>: a fresh EOF when \<open>inputIdx + howMuch\<close> is past the last index of the
  input, and otherwise the token stored at \<open>inputIdx + howMuch\<close>, which is a position
  inside the input.
\<close>

theorem LA_total:
  assumes "1 \<le> howMuch" and "- 1 \<le> inputIdx p"
  shows "LA p howMuch =
           Some (if int (length (input p)) - 1 < inputIdx p + howMuch then newEOF
                 else input p ! nat (inputIdx p + howMuch)) \<and>
         (inputIdx p + howMuch \<le> int (length (input p)) - 1 \<longrightarrow>
            nat (inputIdx p + howMuch) < length (input p))"
  using assms by (auto simp: LA_def arrayGet_def)

theorem LA_total_witness:
  "(1::int) \<le> 2 \<and> - 1 \<le> inputIdx (newParser ''P'' [tokA, tokB] False) \<and>
   LA (newParser ''P'' [tokA, tokB] False) 2 = Some tokB \<and>
   LA (newParser ''P'' [tokA, tokB] False) 3 = Some newEOF"
  using LA_total [of 2 "newParser ''P'' [tokA, tokB] False"]
        LA_total [of 3 "newParser ''P'' [tokA, tokB] False"]
  by (simp add: newParser_def)

lemma consumeToken_inputIdx_lower: "- 1 \<le> inputIdx p \<Longrightarrow> - 1 \<le> inputIdx (consumeToken p)"
  by (simp add: consumeToken_def)

lemma resetLexerState_inputIdx_lower: "- 1 \<le> inputIdx (resetLexerState p)"
  by (simp add: resetLexerState_def)

section \<open>Properties of consume and in-rule recovery\<close>




lemma LA_defined: "- 1 \<le> inputIdx p \<Longrightarrow> 1 \<le> k \<Longrightarrow> \<exists>t. LA p k = Some t"
  by (auto simp: LA_def arrayGet_def)

lemma withSaved_fields [simp]:
  "errors (withSaved e p) = errors p @ [e]"
  "nextExnId (withSaved e p) = nextExnId p + 1"
  "recoveryEnabled (withSaved e p) = recoveryEnabled p"
  "input (withSaved e p) = input p"
  "inputIdx (withSaved e p) = inputIdx p"
  "isBackTrackingStack (withSaved e p) = isBackTrackingStack p"
  "RULE_STACK (withSaved e p) = RULE_STACK p"
  "RULE_OCCURRENCE_STACK (withSaved e p) = RULE_OCCURRENCE_STACK p"
  "className (withSaved e p) = className p"
  "savedTokenIdx (withSaved e p) = savedTokenIdx p"
  by (simp_all add: withSaved_def)

lemma LA_withSaved [simp]: "LA (withSaved e p) k = LA p k"
  by (simp add: LA_def)

lemma isBackTracking_withSaved [simp]: "isBackTracking (withSaved e p) = isBackTracking p"
  by (simp add: isBackTracking_def)

lemma getFollows_withSaved [simp]:
  "getFollowsForInRuleRecovery E T idx (withSaved e p) = getFollowsForInRuleRecovery E T idx p"
  by (simp add: getFollowsForInRuleRecovery_def getCurrentGrammarPath_def)






lemma exampleEnv_fields [simp]:
  "hasTokenLabel exampleEnv = (\<lambda>T. False)"
  "tokenName exampleEnv = clsName"
  "nextAfterTokenWalker exampleEnv = (\<lambda>path. [TokB])"
  "resyncFollows exampleEnv = (\<lambda>key. None)"
  by (simp_all add: exampleEnv_def)






section \<open>Properties of re-synchronisation\<close>

lemma extends_refl [simp]: "extends C C"
  by (cases C) simp


lemma instanceOf_newEOF [simp]: "instanceOf (Some newEOF) EOF"
  by (simp add: instanceOf_def newEOF_def)













section \<open>Properties of the rule wrapper\<close>


lemma LA_frame:
  "input q = input p \<Longrightarrow> inputIdx q = inputIdx p \<Longrightarrow> LA q k = LA p k"
  by (simp add: LA_def)

lemma LA_stack_update [simp]:
  "LA (p\<lparr>RULE_STACK := a, RULE_OCCURRENCE_STACK := b\<rparr>) k = LA p k"
  by (simp add: LA_def)

lemma isAtEndOfInput_stack_update [simp]:
  "isAtEndOfInput (p\<lparr>RULE_STACK := a, RULE_OCCURRENCE_STACK := b\<rparr>) = isAtEndOfInput p"
  by (simp add: isAtEndOfInput_def)

lemma ruleFinallyStateUpdate_result:
  assumes "- 1 \<le> inputIdx p"
  shows "\<exists>q. ruleFinallyStateUpdate p = (Return (), q) \<and>
     RULE_STACK q = butlast (RULE_STACK p) \<and>
     RULE_OCCURRENCE_STACK q = butlast (RULE_OCCURRENCE_STACK p) \<and>
     input q = input p \<and> inputIdx q = inputIdx p \<and>
     isBackTrackingStack q = isBackTrackingStack p \<and> recoveryEnabled q = recoveryEnabled p \<and>
     (if butlast (RULE_STACK p) = [] \<and> \<not> isAtEndOfInput p
      then \<exists>t. LA p 1 = Some t \<and>
             errors q = errors p @
               [\<lparr>exnId = nextExnId p, name = NotAllInputParsedException,
                 message = ''Redundant input, expecting EOF but found: '' @ image t,
                 token = Some t, errContext = Some ([], butlast (RULE_OCCURRENCE_STACK p)),
                 resyncedTokens = []\<rparr>]
      else errors q = errors p)"
proof -
  let ?p1 = "p\<lparr>RULE_STACK := butlast (RULE_STACK p),
                RULE_OCCURRENCE_STACK := butlast (RULE_OCCURRENCE_STACK p)\<rparr>"
  obtain t where t: "LA p 1 = Some t" using LA_defined [OF assms, of 1] by auto
  show ?thesis
    using t
    by (simp add: ruleFinallyStateUpdate_def Let_def newException_def SAVE_ERROR_def)
qed


lemma setResyncedTokens_frame [simp]:
  "RULE_STACK (setResyncedTokens e toks p) = RULE_STACK p"
  "RULE_OCCURRENCE_STACK (setResyncedTokens e toks p) = RULE_OCCURRENCE_STACK p"
  "input (setResyncedTokens e toks p) = input p"
  "inputIdx (setResyncedTokens e toks p) = inputIdx p"
  "isBackTrackingStack (setResyncedTokens e toks p) = isBackTrackingStack p"
  "recoveryEnabled (setResyncedTokens e toks p) = recoveryEnabled p"
  "nextExnId (setResyncedTokens e toks p) = nextExnId p"
  "length (errors (setResyncedTokens e toks p)) = length (errors p)"
  "map exnId (errors (setResyncedTokens e toks p)) = map exnId (errors p)"
  "map name (errors (setResyncedTokens e toks p)) = map name (errors p)"
  by (simp_all add: setResyncedTokens_def)

lemma isAtEndOfInput_setResyncedTokens [simp]:
  "isAtEndOfInput (setResyncedTokens e toks p) = isAtEndOfInput p"
  by (simp add: isAtEndOfInput_def LA_def)

lemma ruleFinally_result:
  assumes "- 1 \<le> inputIdx p"
  shows "\<exists>q. ruleFinally r p = Some (r, q) \<and> ruleFinallyStateUpdate p = (Return (), q)"
  using ruleFinallyStateUpdate_result [OF assms] by (auto simp: ruleFinally_def)


lemma flattenFollowSet_has_EOF:
  "RULE_STACK p \<noteq> [] \<Longrightarrow> Some EOF \<in> set (flattenFollowSet E p)"
proof -
  assume "RULE_STACK p \<noteq> []"
  then obtain r rs where rs: "RULE_STACK p = r # rs" by (cases "RULE_STACK p") auto
  have "[0 ..< length (r # rs)] = 0 # [1 ..< length (r # rs)]"
    by (simp add: upt_rec)
  then show ?thesis
    by (simp add: flattenFollowSet_def buildFullFollowKeyStack_def flatten_def
        getFollowSetFromFollowKey_def rs del: upt_Suc)
qed













lemma nested_rule_rethrows:
  assumes impl: "impl (ruleInvocationStateUpdate rName (case idx of None \<Rightarrow> 1 | Some i \<Rightarrow> i) p)
                   = Some (Throw e, p2)"
    and nested: "1 < length (RULE_STACK p2)"
    and off: "\<not> recoveryEnabled p2 \<or> isBackTracking p2 \<or> \<not> resyncEnabledOf config
              \<or> \<not> isRecognitionException e"
    and idx: "- 1 \<le> inputIdx p2"
  shows "\<exists>q. defineRule E rName impl config idx p = Some (Throw e, q) \<and>
             errors q = errors p2 \<and> RULE_STACK q = butlast (RULE_STACK p2) \<and>
             RULE_OCCURRENCE_STACK q = butlast (RULE_OCCURRENCE_STACK p2) \<and>
             input q = input p2 \<and> inputIdx q = inputIdx p2 \<and>
             isBackTrackingStack q = isBackTrackingStack p2 \<and>
             recoveryEnabled q = recoveryEnabled p2"
proof -
  have run: "defineRule E rName impl config idx p = ruleFinally (Throw e) p2"
    using impl nested off by (auto simp: defineRule_def Let_def)
  have ne: "butlast (RULE_STACK p2) \<noteq> []"
    using nested by (cases "RULE_STACK p2" rule: rev_cases) auto
  from ruleFinallyStateUpdate_result [OF idx] ne
  obtain q where q: "ruleFinallyStateUpdate p2 = (Return (), q)"
    "RULE_STACK q = butlast (RULE_STACK p2)"
    "RULE_OCCURRENCE_STACK q = butlast (RULE_OCCURRENCE_STACK p2)"
    "input q = input p2" "inputIdx q = inputIdx p2"
    "isBackTrackingStack q = isBackTrackingStack p2" "recoveryEnabled q = recoveryEnabled p2"
    "errors q = errors p2"
    by auto
  show ?thesis using run q by (intro exI [of _ q]) (simp add: ruleFinally_def)
qed


section \<open>Properties of backtracking\<close>

text \<open>
  C7. Whatever the rule does under \<open>BACKTRACK\<close> (returns a result that \<open>isValid\<close>
  accepts or rejects, throws a recognition exception, or throws anything else), the call
  comes back with the errors list, the input index and the rule stack it was entered with,
  and with the last entry of the backtracking stack popped; when the rule left the
  backtracking stack as it found it (marker included), the backtracking stack is the one
  before the call. The result is \<open>isValid\<close> of the rule's result, false for a
  recognition exception, and any other exception is thrown on unchanged.
\<close>

theorem BACKTRACK_restores:
  assumes rule: "grammarRule (p\<lparr>isBackTrackingStack := isBackTrackingStack p @ [1]\<rparr>)
                   = Some (out, p2)"
  shows "\<exists>q. BACKTRACK grammarRule isValid p =
               Some (case out of
                       Return ruleResult \<Rightarrow> Return (isValid ruleResult)
                     | Throw e \<Rightarrow> if isRecognitionException e then Return False else Throw e,
                     q) \<and>
             errors q = errors p \<and> inputIdx q = inputIdx p \<and> RULE_STACK q = RULE_STACK p \<and>
             isBackTrackingStack q = butlast (isBackTrackingStack p2) \<and>
             (isBackTrackingStack p2 = isBackTrackingStack p @ [1] \<longrightarrow>
                isBackTrackingStack q = isBackTrackingStack p)"
  using rule
  by (cases out)
     (auto simp: BACKTRACK_def Let_def saveRecogState_def reloadRecogState_def)

theorem BACKTRACK_restores_witness:
  "consumeA ((newParser ''P'' [tokB] True)\<lparr>isBackTrackingStack := [] @ [1]\<rparr>) =
     Some (Throw (Recognition
             \<lparr>exnId = 0, name = MismatchedTokenException,
              message = ''Expecting token of type --> A <-- but found --> '' @ [CHR 0x27]
                          @ ''b'' @ [CHR 0x27] @ '' <--'',
              token = Some tokB, errContext = Some ([], []), resyncedTokens = []\<rparr>),
           (newParser ''P'' [tokB] True)
             \<lparr>isBackTrackingStack := [1], nextExnId := 1,
              errors := [\<lparr>exnId = 0, name = MismatchedTokenException,
                 message = ''Expecting token of type --> A <-- but found --> '' @ [CHR 0x27]
                          @ ''b'' @ [CHR 0x27] @ '' <--'',
                 token = Some tokB, errContext = Some ([], []), resyncedTokens = []\<rparr>]\<rparr>) \<and>
   BACKTRACK consumeA (\<lambda>tok. True) (newParser ''P'' [tokB] True) =
     Some (Return False, (newParser ''P'' [tokB] True)\<lparr>nextExnId := 1\<rparr>)"
proof -
  let ?p = "newParser ''P'' [tokB] True"
  have run: "consumeA (?p\<lparr>isBackTrackingStack := isBackTrackingStack ?p @ [1]\<rparr>) =
     Some (Throw (Recognition
             \<lparr>exnId = 0, name = MismatchedTokenException,
              message = ''Expecting token of type --> A <-- but found --> '' @ [CHR 0x27]
                          @ ''b'' @ [CHR 0x27] @ '' <--'',
              token = Some tokB, errContext = Some ([], []), resyncedTokens = []\<rparr>),
           ?p\<lparr>isBackTrackingStack := [1], nextExnId := 1,
              errors := [\<lparr>exnId = 0, name = MismatchedTokenException,
                 message = ''Expecting token of type --> A <-- but found --> '' @ [CHR 0x27]
                          @ ''b'' @ [CHR 0x27] @ '' <--'',
                 token = Some tokB, errContext = Some ([], []), resyncedTokens = []\<rparr>]\<rparr>)"
    by (simp add: consumeA_def newParser_def LA_def arrayGet_def instanceOf_def tokB_def
        newToken_def TokA_def TokB_def Token_def consumeInternal_def
        consumeInternalOptimized_def getMisMatchTokenErrorMessage_def newException_def
        SAVE_ERROR_def throwSaved_def isBackTracking_def Let_def exampleEnv_def)
  from BACKTRACK_restores [where grammarRule = consumeA and p = ?p and isValid = "\<lambda>tok. True",
         OF run]
  obtain q where q: "BACKTRACK consumeA (\<lambda>tok. True) ?p = Some (Return False, q)"
    "errors q = errors ?p" "inputIdx q = inputIdx ?p"
    by auto
  have "BACKTRACK consumeA (\<lambda>tok. True) ?p = Some (Return False, ?p\<lparr>nextExnId := 1\<rparr>)"
    using run
    by (simp add: BACKTRACK_def Let_def saveRecogState_def reloadRecogState_def newParser_def)
  with run q show ?thesis by (simp add: newParser_def)
qed


section \<open>Properties of cloning\<close>

lemma visit_props:
  "shape (fst (visit node h)) = shape node \<and>
   set (referencedRules (fst (visit node h))) \<subseteq> {None} \<and>
   h \<le> snd (visit node h) \<and>
   set (nodeIds (fst (visit node h))) \<subseteq> {h ..< snd (visit node h)} \<and>
   distinct (nodeIds (fst (visit node h)))"
  and visitAll_props:
  "map shape (fst (visitAll nodes h)) = map shape nodes \<and>
   set (concat (map referencedRules (fst (visitAll nodes h)))) \<subseteq> {None} \<and>
   h \<le> snd (visitAll nodes h) \<and>
   set (concat (map nodeIds (fst (visitAll nodes h)))) \<subseteq> {h ..< snd (visitAll nodes h)} \<and>
   distinct (concat (map nodeIds (fst (visitAll nodes h))))"
proof (induction node h and nodes h rule: visit_visitAll.induct)
  case (12 currSubDef rest h)
  obtain c h1 where c: "visit currSubDef h = (c, h1)" by (cases "visit currSubDef h")
  obtain r h2 where r: "visitAll rest h1 = (r, h2)" by (cases "visitAll rest h1")
  from 12(1) c have 1: "shape c = shape currSubDef"
    "set (referencedRules c) \<subseteq> {None}" "h \<le> h1" "set (nodeIds c) \<subseteq> {h ..< h1}"
    "distinct (nodeIds c)" by simp_all
  from 12(2) [OF c [symmetric] refl] r have 2: "map shape r = map shape rest"
    "set (concat (map referencedRules r)) \<subseteq> {None}" "h1 \<le> h2"
    "set (concat (map nodeIds r)) \<subseteq> {h1 ..< h2}"
    "distinct (concat (map nodeIds r))" by simp_all
  have disj: "set (nodeIds c) \<inter> set (concat (map nodeIds r)) = {}"
    using 1(4) 2(4) by fastforce
  show ?case
    using 1 2 disj c r by (auto simp: subset_iff)
qed (auto simp: split_beta Let_def subset_iff)


text \<open>
  C9. \<open>cloneProduction\<close> returns a deep copy with the structure of the original: variant,
  child order, names, occurrence indices and separator token types of all nodes are equal.
  Every resolved rule reference of the clone is unset. Every node of the clone is a new
  object: the nodes of the clone are pairwise distinct objects, and none of them is an
  object of the original (whose objects were all built before the clone, that is below the
  counter of \<open>new\<close>).
\<close>

theorem cloneProduction_deep_copy:
  "shape (fst (cloneProduction node h)) = shape node \<and>
   set (referencedRules (fst (cloneProduction node h))) \<subseteq> {None} \<and>
   distinct (nodeIds (fst (cloneProduction node h))) \<and>
   ((\<forall>i \<in> set (nodeIds node). i < h) \<longrightarrow>
      set (nodeIds (fst (cloneProduction node h))) \<inter> set (nodeIds node) = {})"
proof -
  have "set (nodeIds (fst (visit node h))) \<subseteq> {h ..< snd (visit node h)}"
    using visit_props [of node h] by blast
  then have "(\<forall>i \<in> set (nodeIds node). i < h) \<longrightarrow>
      set (nodeIds (fst (visit node h))) \<inter> set (nodeIds node) = {}"
    by fastforce
  then show ?thesis
    using visit_props [of node h] by (simp add: cloneProduction_def)
qed

theorem cloneProduction_deep_copy_witness:
  "nodeIds exampleProduction = [0, 1, 2, 3] \<and>
   fst (cloneProduction exampleProduction 10) =
     Rule 13 ''top'' [Terminal 10 (TokClass ''A'' (Some (TokClass ''Token'' None))) 1,
                      Option 12 [NonTerminal 11 ''sub'' None 1] 1] ''text'' \<and>
   set (nodeIds (fst (cloneProduction exampleProduction 10))) \<inter>
     set (nodeIds exampleProduction) = {}"
proof -
  have h: "\<forall>i \<in> set (nodeIds exampleProduction). i < 10"
    by (simp add: exampleProduction_def)
  have c: "fst (cloneProduction exampleProduction 10) =
     Rule 13 ''top'' [Terminal 10 (TokClass ''A'' (Some (TokClass ''Token'' None))) 1,
                      Option 12 [NonTerminal 11 ''sub'' None 1] 1] ''text''"
    by (simp add: exampleProduction_def cloneProduction_def Let_def)
  have n: "nodeIds exampleProduction = [0, 1, 2, 3]"
    by (simp add: exampleProduction_def)
  show ?thesis
    using cloneProduction_deep_copy [of exampleProduction 10] h c n by simp
qed


section \<open>Properties of self analysis\<close>

lemma htPut_keys_kept:
  "map fst (map (\<lambda>(k', v'). if k' = k then (k', v) else (k', v')) t) = map fst t"
  by (induction t) auto

lemma htGet_htPut_same [simp]: "htGet (htPut k v t) k = Some v"
proof (cases "htContainsKey t k")
  case True
  then have "map_of (map (\<lambda>(k', v'). if k' = k then (k', v) else (k', v')) t) k = Some v"
    by (induction t) (auto simp: htContainsKey_def)
  with True show ?thesis by (simp add: htGet_def htPut_def)
next
  case False
  then have "map_of t k = None" by (simp add: htContainsKey_def map_of_eq_None_iff)
  with False show ?thesis by (simp add: htGet_def htPut_def map_add_def)
qed

lemma htContainsKey_htPut_same [simp]: "htContainsKey (htPut k v t) k"
proof (cases "htContainsKey t k")
  case True
  then show ?thesis
    using htPut_keys_kept [of k v t] by (simp add: htContainsKey_def htPut_def)
next
  case False
  then show ?thesis by (simp add: htContainsKey_def htPut_def)
qed





section \<open>Properties of reset\<close>

text \<open>
  C10. Assigning through the input setter resets the runtime state of the instance before
  the new token sequence is installed: afterwards the errors list, the rule-name stack, the
  rule-occurrence stack and the backtracking stack are empty, the input index is back at its
  initial value -1, and the input is the new sequence.
\<close>

theorem set_input_resets_state:
  "errors (set_input newInput p) = [] \<and>
   RULE_STACK (set_input newInput p) = [] \<and>
   RULE_OCCURRENCE_STACK (set_input newInput p) = [] \<and>
   isBackTrackingStack (set_input newInput p) = [] \<and>
   inputIdx (set_input newInput p) = - 1 \<and>
   input (set_input newInput p) = newInput"
  by (simp add: set_input_def reset_def resetLexerState_def)

section \<open>Properties of DSL calls\<close>



lemma conforms_weaken: "conforms act \<Longrightarrow> conformsIf b act"
  by (simp add: conformsIf_def)

lemma conforms_eta: "conformsIf b act \<Longrightarrow> conformsIf b (\<lambda>q. act q)"
  by simp

text \<open>An action whose parts are chosen by reading the parser it starts on.\<close>

lemma conforms_dependent:
  "(\<And>p0. conformsIf b (F p0)) \<Longrightarrow> conformsIf b (\<lambda>p. F p p)"
  unfolding conformsIf_def by blast

lemma post_Return_refl [simp]: "wellFormed p \<Longrightarrow> post p (Return v) p"
  by (simp add: post_def)





lemma post_Return_change: "post p (Return v) q \<Longrightarrow> post p (Return w) q"
  by (simp add: post_def)

lemma conforms_returning [simp]: "conformsIf b (returning v)"
  by (auto simp: conformsIf_def returning_def)


lemma conforms_notAFunction [simp]: "conformsIf b notAFunction"
  by (auto simp: conformsIf_def notAFunction_def post_def)

lemma conforms_None [simp]: "conformsIf b (\<lambda>p. None)"
  by (simp add: conformsIf_def)


lemma conforms_when_recovering:
  assumes "conformsIf True a" and "conformsIf b c"
  shows "conformsIf b (\<lambda>q. if recoveryEnabled q then a q else c q)"
  using assms by (auto simp: conformsIf_def)




lemma wellFormed_withSaved [simp]: "wellFormed (withSaved e p) = wellFormed p"
  by (simp add: wellFormed_def)




















lemma conforms_Return [simp]: "conformsIf b (\<lambda>q. Some (Return v, q))"
  by (auto simp: conformsIf_def)





















section \<open>Properties of a parse from the top rule\<close>















end
